theory Spec2Isabelle
  imports Main "HOL-Library.Word"
begin

unbundle bit_operations_syntax

section \<open>Strings and paths\<close>

text \<open>
  JavaScript's \<open>String.prototype.startsWith\<close> and \<open>endsWith\<close> on strings
  (lists of characters).
\<close>

fun startsWith :: "string \<Rightarrow> string \<Rightarrow> bool" where
  "startsWith s [] = True"
| "startsWith [] (c # p) = False"
| "startsWith (x # s) (c # p) = (x = c \<and> startsWith s p)"

definition endsWith :: "string \<Rightarrow> string \<Rightarrow> bool" where
  "endsWith s suffix = startsWith (rev s) (rev suffix)"

text \<open>
  The services of the host that \<open>src/main.js\<close> calls and that are not part of the
  repository (Node's \<open>path\<close> and \<open>fs\<close> modules) are parameters of the model:
  \<^item> \<open>path_sep\<close> is \<open>path.sep\<close>, a single character;
  \<^item> \<open>path_dirname\<close> is \<open>path.dirname\<close>;
  \<^item> \<open>path_join\<close> is \<open>path.join\<close> applied to a list of arguments;
  \<^item> \<open>path_isAbsolute\<close> is \<open>path.isAbsolute\<close>;
  \<^item> \<open>path_resolve\<close> is \<open>path.resolve\<close> of one argument (resolution against the
    current working directory of the process);
  \<^item> \<open>fs_existsSync\<close> is \<open>fs.existsSync\<close>;
  \<^item> \<open>fs_realpathSync\<close> is \<open>fs.realpathSync\<close>, \<open>None\<close> when it throws;
  \<^item> \<open>fs_statIsDirectory p\<close> is \<open>fs.statSync(p).isDirectory()\<close>, \<open>None\<close> when
    \<open>statSync\<close> throws.
\<close>

record host =
  path_sep :: char
  path_dirname :: "string \<Rightarrow> string"
  path_join :: "string list \<Rightarrow> string"
  path_isAbsolute :: "string \<Rightarrow> bool"
  path_resolve :: "string \<Rightarrow> string"
  fs_existsSync :: "string \<Rightarrow> bool"
  fs_realpathSync :: "string \<Rightarrow> string option"
  fs_statIsDirectory :: "string \<Rightarrow> bool option"

text \<open>\<open>sep\<close> of \<open>src/main.js\<close>: a directory path with its trailing separator.\<close>

definition sep :: "host \<Rightarrow> string \<Rightarrow> string" where
  "sep h dirPath = (if endsWith dirPath [path_sep h] then dirPath else dirPath @ [path_sep h])"

section \<open>The subscription and the event translator\<close>

datatype js_error =
    WatcherError string string   \<comment> \<open>message, code\<close>
  | StatError string             \<comment> \<open>\<open>fs.statSync\<close> threw on this path\<close>
  | TypeError string             \<comment> \<open>a method was called on \<open>undefined\<close>\<close>
  | RangeError string            \<comment> \<open>the call stack is exhausted\<close>

text \<open>
  The event names that the native layer produces (\<open>EventType\<close> of \<open>lib/core.cc\<close>):
  \<open>create\<close>, \<open>delete\<close>, \<open>change\<close>, \<open>rename\<close>, their \<open>child-\<close> forms, and
  \<open>unknown\<close>.
\<close>

datatype event_action =
    Create | Delete | Change | Rename
  | ChildCreate | ChildDelete | ChildChange | ChildRename
  | Unknown

text \<open>\<open>WatcherEvent\<close>: the native layer passes both paths as strings; the old path is
  the empty string when the event has none.\<close>

record watcher_event =
  action :: event_action
  path :: string
  oldPath :: string

text \<open>The fields of \<open>PathWatcher\<close> that the constructor sets and the translator reads
  and writes.\<close>

record path_watcher =
  watchedPath :: string
  normalizedPath :: string
  originalNormalizedPath :: string
  isWatchingParent :: bool
  active :: bool

text \<open>\<open>getRealFilePath\<close>: the real path, or the path itself when \<open>realpathSync\<close>
  throws.\<close>

definition getRealFilePath :: "host \<Rightarrow> string \<Rightarrow> string" where
  "getRealFilePath h filePath =
     (case fs_realpathSync h filePath of Some r \<Rightarrow> r | None \<Rightarrow> filePath)"

definition isDirectory :: "host \<Rightarrow> string \<Rightarrow> js_error + bool" where
  "isDirectory h somePath =
     (case fs_statIsDirectory h somePath of None \<Rightarrow> Inl (StatError somePath) | Some d \<Rightarrow> Inr d)"

text \<open>The constructor of \<open>PathWatcher\<close>: it throws before anything else is done when
  the path does not exist.\<close>

definition new_PathWatcher :: "host \<Rightarrow> string \<Rightarrow> js_error + path_watcher" where
  "new_PathWatcher h wp =
     (if \<not> fs_existsSync h wp then Inl (WatcherError ''Unable to watch path'' ''ENOENT'')
      else
        let real = getRealFilePath h wp in
        case isDirectory h real of
          Inl e \<Rightarrow> Inl e
        | Inr d \<Rightarrow>
            Inr \<lparr> watchedPath = wp,
                  normalizedPath = (if \<not> d then path_dirname h real else real),
                  originalNormalizedPath = real,
                  isWatchingParent = (\<not> d),
                  active = True \<rparr>)"

definition moveToPath :: "host \<Rightarrow> path_watcher \<Rightarrow> string \<Rightarrow> js_error + path_watcher" where
  "moveToPath h w newPath =
     (case isDirectory h newPath of
        Inl e \<Rightarrow> Inl e
      | Inr d \<Rightarrow>
          if \<not> d then
            Inr (w\<lparr> isWatchingParent := True,
                    originalNormalizedPath := newPath,
                    normalizedPath := path_dirname h newPath \<rparr>)
          else
            Inr (w\<lparr> isWatchingParent := False,
                    originalNormalizedPath := newPath,
                    normalizedPath := newPath \<rparr>))"

text \<open>\<open>isWatchedPath\<close>, the closure of \<open>onNativeEvent\<close>.\<close>

definition isWatchedPath :: "host \<Rightarrow> path_watcher \<Rightarrow> string \<Rightarrow> bool" where
  "isWatchedPath h w eventPath = startsWith eventPath (sep h (normalizedPath w))"

text \<open>
  The \<open>switch\<close> of \<open>onNativeEvent\<close>. The result is an exception, or the subscription
  (changed by \<open>moveToPath\<close>) with \<open>None\<close> where the source returns early and the
  rewritten event where it breaks out of the \<open>switch\<close>.
\<close>

definition switchAction ::
  "host \<Rightarrow> path_watcher \<Rightarrow> watcher_event \<Rightarrow> js_error + (path_watcher \<times> watcher_event option)"
where
  "switchAction h w event =
     (let eventPathIsEqual = (originalNormalizedPath w = path event);
          eventOldPathIsEqual = (originalNormalizedPath w = oldPath event);
          newWatched = isWatchedPath h w (path event);
          oldWatched = isWatchedPath h w (oldPath event)
      in
      case action event of
        Rename \<Rightarrow> Inr (w, Some event)
      | Delete \<Rightarrow> Inr (w, Some event)
      | Create \<Rightarrow> Inr (w, Some event)
      | ChildCreate \<Rightarrow>
          if \<not> isWatchingParent w then
            (if eventPathIsEqual then Inr (w, Some (event\<lparr>action := Create\<rparr>))
             else Inr (w, Some (event\<lparr>action := Change, path := ''''\<rparr>)))
          else if eventPathIsEqual then Inr (w, Some (event\<lparr>action := Create\<rparr>))
          else Inr (w, Some event)
      | ChildDelete \<Rightarrow>
          if \<not> isWatchingParent w then Inr (w, Some (event\<lparr>action := Change, path := ''''\<rparr>))
          else if eventPathIsEqual then Inr (w, Some (event\<lparr>action := Delete\<rparr>))
          else Inr (w, Some event)
      | ChildRename \<Rightarrow>
          (let pathIsInvolved = (eventPathIsEqual \<or> eventOldPathIsEqual) in
           if isWatchingParent w \<and> \<not> pathIsInvolved then Inr (w, None)
           else if \<not> isWatchingParent w \<and> \<not> pathIsInvolved then
             (if path_dirname h (path event) = normalizedPath w
                 \<or> path_dirname h (oldPath event) = normalizedPath w
              then Inr (w, Some (event\<lparr>action := Change, path := ''''\<rparr>))
              else Inr (w, None))
           else
             (case (if newWatched \<and> originalNormalizedPath w \<noteq> path event
                    then moveToPath h w (path event) else Inr w) of
                Inl e \<Rightarrow> Inl e
              | Inr w' \<Rightarrow>
                  if oldWatched \<and> newWatched then Inr (w', Some (event\<lparr>action := Rename\<rparr>))
                  else if oldWatched \<and> \<not> newWatched then Inr (w', Some (event\<lparr>action := Delete\<rparr>))
                  else if \<not> oldWatched \<and> newWatched then Inr (w', Some (event\<lparr>action := Create\<rparr>))
                  else Inr (w', Some event)))
      | ChildChange \<Rightarrow>
          if \<not> isWatchingParent w then
            (if eventPathIsEqual then Inr (w, None)
             else Inr (w, Some (event\<lparr>action := Change, path := ''''\<rparr>)))
          else
            (if eventPathIsEqual then Inr (w, Some (event\<lparr>action := Change, path := ''''\<rparr>))
             else Inr (w, None))
      | Change \<Rightarrow> Inr (w, Some event)
      | Unknown \<Rightarrow> Inr (w, Some event))"

text \<open>
  \<open>onNativeEvent\<close>: the subscription after the event and the call of the user's
  callback, if any: the public action and the path argument, \<open>None\<close> for \<open>null\<close>.
\<close>

type_synonym callback_call = "event_action \<times> string option"

definition onNativeEvent ::
  "host \<Rightarrow> path_watcher \<Rightarrow> watcher_event \<Rightarrow> js_error + (path_watcher \<times> callback_call option)"
where
  "onNativeEvent h w event =
     (let eventPathIsEqual = (originalNormalizedPath w = path event);
          newWatched = isWatchedPath h w (path event);
          oldWatched = isWatchedPath h w (oldPath event)
      in
      if \<not> newWatched \<and> \<not> oldWatched then Inr (w, None)
      else
        case switchAction h w event of
          Inl e \<Rightarrow> Inl e
        | Inr (w', None) \<Rightarrow> Inr (w', None)
        | Inr (w', Some newEvent) \<Rightarrow>
            if eventPathIsEqual \<and> action newEvent = Create then Inr (w', None)
            else if eventPathIsEqual then
              Inr (w', Some (action newEvent,
                             if action newEvent = Delete then None else Some ''''))
            else Inr (w', Some (action newEvent, Some (path newEvent))))"

section \<open>The entry point \<open>watch\<close>\<close>

text \<open>
  The module state of \<open>src/main.js\<close> that \<open>watch\<close> touches: the flag
  \<open>initialized\<close> and the registry with everything it owns. \<open>watch\<close> sets the flag,
  constructs the subscription on \<open>path.resolve(pathToWatch)\<close> and only then calls
  \<open>watcher.onDidChange(callback)\<close>, which asks the registry for a native watcher. That
  call is a parameter here: it receives the subscription and the registry state and
  returns its result (or the exception it throws) with the new registry state. The
  method itself is \<open>PathWatcher_onDidChange\<close> below.
\<close>

record 'r module_state =
  initialized :: bool
  registry :: 'r

definition watch ::
  "host \<Rightarrow> (path_watcher \<Rightarrow> 'r \<Rightarrow> (js_error + path_watcher) \<times> 'r) \<Rightarrow> 'r module_state \<Rightarrow> string
     \<Rightarrow> (js_error + path_watcher) \<times> 'r module_state"
where
  "watch h onDidChange m pathToWatch =
     (let m1 = m\<lparr>initialized := True\<rparr> in
      case new_PathWatcher h (path_resolve h pathToWatch) of
        Inl e \<Rightarrow> (Inl e, m1)
      | Inr watcher \<Rightarrow>
          (case onDidChange watcher (registry m1) of
             (res, r') \<Rightarrow> (res, m1\<lparr>registry := r'\<rparr>)))"

section \<open>The registry tree (\<open>native-watcher-registry.js\<close>)\<close>

text \<open>JavaScript's \<open>String.prototype.split\<close> with a one-character separator.\<close>

fun split_on :: "char \<Rightarrow> string \<Rightarrow> string list" where
  "split_on c [] = [[]]"
| "split_on c (x # xs) =
     (if x = c then [] # split_on c xs
      else (case split_on c xs of w # ws \<Rightarrow> (x # w) # ws | [] \<Rightarrow> [[x]]))"

text \<open>\<open>absolute\<close>: re-join the segments split from an absolute path.\<close>

definition absolute :: "host \<Rightarrow> string list \<Rightarrow> string" where
  "absolute h parts =
     (let candidate = path_join h parts in
      if path_isAbsolute h candidate then candidate
      else path_join h [[path_sep h], candidate])"

record options =
  reuseAncestorWatchers :: bool
  relocateDescendantWatchers :: bool
  relocateAncestorWatchers :: bool
  mergeWatchersWithCommonAncestors :: bool
  maxCommonAncestorLevel :: int

text \<open>\<open>NativeWatcherRegistry.DEFAULT_OPTIONS\<close>.\<close>

definition DEFAULT_OPTIONS :: options where
  "DEFAULT_OPTIONS =
     \<lparr> reuseAncestorWatchers = True,
       relocateDescendantWatchers = True,
       relocateAncestorWatchers = True,
       mergeWatchersWithCommonAncestors = True,
       maxCommonAncestorLevel = 3 \<rparr>"

text \<open>
  The registry never looks inside a native watcher: it obtains one from \<open>createNative\<close>,
  the function that its constructor is given, and calls \<open>reattachListenersTo\<close>,
  \<open>dispose\<close> and \<open>stop\<close> on it. A native watcher is therefore a number, its identity,
  and \<open>createNative\<close> is a parameter of the functions below: it is called with one
  argument, the absolute path, and returns a native watcher or throws. What the registry
  does to the outside is the sequence of its calls:
  \<^item> \<open>CreateNative k p\<close>: the \<open>k\<close>-th call \<open>createNative(p)\<close>, recorded by
    \<open>counting_createNative\<close>, which returns the number of the call;
  \<^item> \<open>AttachToNative n p\<close>: the callback \<open>attachToNative(n, p)\<close> of the subscription
    being attached;
  \<^item> \<open>ReattachListenersTo n r p\<close>: \<open>n.reattachListenersTo(r, p)\<close>;
  \<^item> \<open>Dispose n\<close> and \<open>Stop n\<close>: \<open>n.dispose()\<close> and \<open>n.stop()\<close>.
\<close>

datatype effect =
    CreateNative nat string
  | AttachToNative nat string
  | ReattachListenersTo nat nat string
  | Dispose nat
  | Stop nat

record reg_io =
  created :: nat
  effects :: "effect list"

definition emit :: "effect \<Rightarrow> 'a reg_io_scheme \<Rightarrow> 'a reg_io_scheme" where
  "emit e io = io\<lparr>effects := effects io @ [e]\<rparr>"

definition counting_createNative ::
  "string \<Rightarrow> 'a reg_io_scheme \<Rightarrow> js_error + (nat \<times> 'a reg_io_scheme)" where
  "counting_createNative p io =
     Inr (created io,
          io\<lparr>created := Suc (created io), effects := effects io @ [CreateNative (created io) p]\<rparr>)"

text \<open>
  The nodes of the trie. A \<open>RegistryNode\<close> holds its \<open>pathKey\<close> (\<open>None\<close> for
  \<open>undefined\<close>: the nodes built by \<open>new RegistryNode(null)\<close>, which are exactly the
  nodes whose \<open>parent\<close> is \<open>null\<close>) and its \<open>children\<close>, an object whose keys are kept
  in insertion order. A \<open>RegistryWatcherNode\<close> holds its native watcher, its
  \<open>absolutePathSegments\<close> and its \<open>childPaths\<close>, a \<open>Set\<close> of joined strings kept in
  insertion order. \<open>Undefined\<close> is the value \<open>undefined\<close>, which
  \<open>RegistryWatcherNode.insert\<close> returns for a non-empty path and which can thus be
  stored as a child.
\<close>

datatype node =
    RegistryNode "string option" "(string \<times> node) list"
  | RegistryWatcherNode nat "string list" "string list"
  | Undefined

definition dict_set :: "(string \<times> node) list \<Rightarrow> string \<Rightarrow> node \<Rightarrow> (string \<times> node) list" where
  "dict_set ch k v =
     (if k \<in> fst ` set ch then map (\<lambda>(k', v'). if k' = k then (k', v) else (k', v')) ch
      else ch @ [(k, v)])"

definition dict_delete :: "(string \<times> node) list \<Rightarrow> string \<Rightarrow> (string \<times> node) list" where
  "dict_delete ch k = filter (\<lambda>(k', v'). k' \<noteq> k) ch"

definition set_add :: "string list \<Rightarrow> string \<Rightarrow> string list" where
  "set_add s x = (if x \<in> set s then s else s @ [x])"

definition set_delete :: "string list \<Rightarrow> string \<Rightarrow> string list" where
  "set_delete s x = filter (\<lambda>y. y \<noteq> x) s"

text \<open>The constructor of \<open>RegistryWatcherNode\<close> joins each child path.\<close>

definition new_RegistryWatcherNode :: "host \<Rightarrow> nat \<Rightarrow> string list \<Rightarrow> string list list \<Rightarrow> node" where
  "new_RegistryWatcherNode h nativeWatcher absolutePathSegments childPaths =
     RegistryWatcherNode nativeWatcher absolutePathSegments
       (fold (\<lambda>segs s. set_add s (path_join h segs)) childPaths [])"

text \<open>\<open>leaves\<close>: the watcher nodes below a node, each with its native watcher and its
  path. Calling it on \<open>undefined\<close> is a \<open>TypeError\<close>.\<close>

fun leaves :: "node \<Rightarrow> string list \<Rightarrow> js_error + (nat \<times> string list) list"
  and leaves_of_children :: "(string \<times> node) list \<Rightarrow> string list \<Rightarrow> js_error + (nat \<times> string list) list"
where
  "leaves (RegistryWatcherNode n aps cps) prefix = Inr [(n, prefix)]"
| "leaves Undefined prefix = Inl (TypeError ''leaves of undefined'')"
| "leaves (RegistryNode pk ch) prefix = leaves_of_children ch prefix"
| "leaves_of_children [] prefix = Inr []"
| "leaves_of_children (kc # rest) prefix =
     (case leaves (snd kc) (prefix @ [fst kc]) of
        Inl e \<Rightarrow> Inl e
      | Inr r \<Rightarrow> (case leaves_of_children rest prefix of
                   Inl e \<Rightarrow> Inl e
                 | Inr rs \<Rightarrow> Inr (r @ rs)))"

text \<open>
  The three results of \<open>lookup\<close>. \<open>ParentResult\<close> carries the place of the watcher
  node in the tree (the keys from the root, used to write \<open>addChildPath\<close> back), its
  native watcher, its \<open>absolutePathSegments\<close> and the remaining segments.
  \<open>MissingResult\<close> carries the last node traversed and the \<open>pathKey\<close>s of its ancestors,
  nearest first, which stand for its chain of \<open>parent\<close> references.
\<close>

datatype lookup_result =
    ParentResult "string list" nat "string list" "string list"
  | ChildrenResult "(nat \<times> string list) list"
  | MissingResult node "string option list"

fun lookup :: "node \<Rightarrow> string list \<Rightarrow> string list \<Rightarrow> string option list \<Rightarrow> js_error + lookup_result" where
  "lookup (RegistryWatcherNode n aps cps) pathSegments pos up =
     Inr (ParentResult pos n aps pathSegments)"
| "lookup Undefined pathSegments pos up = Inl (TypeError ''lookup of undefined'')"
| "lookup (RegistryNode pk ch) [] pos up =
     (case leaves (RegistryNode pk ch) [] of Inl e \<Rightarrow> Inl e | Inr ls \<Rightarrow> Inr (ChildrenResult ls))"
| "lookup (RegistryNode pk ch) (s # segs) pos up =
     (case map_of ch s of
        None \<Rightarrow> Inr (MissingResult (RegistryNode pk ch) up)
      | Some Undefined \<Rightarrow> Inr (MissingResult (RegistryNode pk ch) up)
      | Some child \<Rightarrow> lookup child segs (pos @ [s]) (pk # up))"

text \<open>\<open>getPathSegments\<close> of the last traversed node: its own key, preceded by the keys
  of its ancestors as long as they are truthy.\<close>

definition truthy :: "string option \<Rightarrow> bool" where
  "truthy k = (case k of None \<Rightarrow> False | Some s \<Rightarrow> s \<noteq> [])"

fun getPathSegments :: "node \<Rightarrow> string option list \<Rightarrow> string option list" where
  "getPathSegments (RegistryNode pk ch) up = rev (takeWhile truthy up) @ [pk]"
| "getPathSegments n up = [None]"

text \<open>\<open>insert\<close>. A watcher node asked to insert below itself returns \<open>undefined\<close>; a
  child that is \<open>undefined\<close> is replaced by a new node.\<close>

fun insert :: "node \<Rightarrow> string list \<Rightarrow> node \<Rightarrow> node" where
  "insert n [] leaf = leaf"
| "insert (RegistryWatcherNode n aps cps) (s # segs) leaf = Undefined"
| "insert Undefined (s # segs) leaf = Undefined"
| "insert (RegistryNode pk ch) (s # segs) leaf =
     (let child = (case map_of ch s of
                     None \<Rightarrow> RegistryNode (Some s) []
                   | Some Undefined \<Rightarrow> RegistryNode (Some s) []
                   | Some c \<Rightarrow> c)
      in RegistryNode pk (dict_set ch s (insert child segs leaf)))"

text \<open>\<open>parent.addChildPath(remaining)\<close> on the watcher node found at \<open>pos\<close>.\<close>

fun addChildPathAt :: "host \<Rightarrow> node \<Rightarrow> string list \<Rightarrow> string list \<Rightarrow> node" where
  "addChildPathAt h (RegistryWatcherNode n aps cps) pos childPathSegments =
     RegistryWatcherNode n aps (set_add cps (path_join h childPathSegments))"
| "addChildPathAt h (RegistryNode pk ch) (s # pos) childPathSegments =
     (case map_of ch s of
        None \<Rightarrow> RegistryNode pk ch
      | Some child \<Rightarrow> RegistryNode pk (dict_set ch s (addChildPathAt h child pos childPathSegments)))"
| "addChildPathAt h n pos childPathSegments = n"

text \<open>The two closures of \<open>RegistryTree.add\<close>. Both return the new native watcher, the new
  root and the calls made. The argument \<open>createNative\<close> is \<open>this.createNative\<close>, whose
  exception leaves the closure before the tree is touched; the argument \<open>attach\<close> is the
  \<open>attachToNative\<close> callback.\<close>

definition attachToNew ::
  "(string \<Rightarrow> 'a reg_io_scheme \<Rightarrow> js_error + (nat \<times> 'a reg_io_scheme)) \<Rightarrow> host
     \<Rightarrow> (nat \<Rightarrow> string \<Rightarrow> effect) \<Rightarrow> string list \<Rightarrow> node \<Rightarrow> string list \<Rightarrow> string list list
     \<Rightarrow> 'a reg_io_scheme \<Rightarrow> js_error + (nat \<times> node \<times> 'a reg_io_scheme)"
where
  "attachToNew createNative h attach basePathSegments root pathSegments childPaths io =
     (let absolutePathSegments = basePathSegments @ pathSegments;
          absolutePath = absolute h absolutePathSegments
      in case createNative absolutePath io of
           Inl e \<Rightarrow> Inl e
         | Inr (native, io1) \<Rightarrow>
             let leaf = new_RegistryWatcherNode h native absolutePathSegments childPaths
             in if root = Undefined then Inl (TypeError ''insert of undefined'')
                else Inr (native, insert root pathSegments leaf,
                          emit (attach native absolutePath) io1))"

definition attachToAncestor ::
  "(string \<Rightarrow> 'a reg_io_scheme \<Rightarrow> js_error + (nat \<times> 'a reg_io_scheme)) \<Rightarrow> host
     \<Rightarrow> (nat \<Rightarrow> string \<Rightarrow> effect) \<Rightarrow> node \<Rightarrow> string option list \<Rightarrow> string list list
     \<Rightarrow> 'a reg_io_scheme \<Rightarrow> js_error + (nat \<times> node \<times> 'a reg_io_scheme)"
where
  "attachToAncestor createNative h attach root absolutePaths childPaths io =
     (if None \<in> set absolutePaths then Inl (TypeError ''path.join of undefined'')
      else
        let segs = map the absolutePaths;
            ancestorAbsolutePath = absolute h segs
        in case createNative ancestorAbsolutePath io of
             Inl e \<Rightarrow> Inl e
           | Inr (native, io1) \<Rightarrow>
               let leaf = new_RegistryWatcherNode h native segs childPaths
               in if root = Undefined then Inl (TypeError ''insert of undefined'')
                  else Inr (native, insert root segs leaf,
                            emit (attach native ancestorAbsolutePath) io1))"

text \<open>The loop that hands the listeners of the replaced native watchers to the new one
  and stops them.\<close>

definition replaceNatives ::
  "(nat \<times> string list) list \<Rightarrow> nat \<Rightarrow> string \<Rightarrow> 'a reg_io_scheme \<Rightarrow> 'a reg_io_scheme" where
  "replaceNatives ls newNative absolutePath io =
     fold (\<lambda>l io'. emit (Stop (fst l)) (emit (Dispose (fst l))
              (emit (ReattachListenersTo (fst l) newNative absolutePath) io'))) ls io"

text \<open>\<open>RegistryTree.add\<close>: the new root and the calls made.\<close>

definition add ::
  "(string \<Rightarrow> 'a reg_io_scheme \<Rightarrow> js_error + (nat \<times> 'a reg_io_scheme)) \<Rightarrow> options \<Rightarrow> host
     \<Rightarrow> (nat \<Rightarrow> string \<Rightarrow> effect) \<Rightarrow> string list \<Rightarrow> node \<Rightarrow> string list \<Rightarrow> 'a reg_io_scheme
     \<Rightarrow> js_error + (node \<times> 'a reg_io_scheme)"
where
  "add createNative opts h attach basePathSegments root pathSegments io =
     (let absolutePathSegments = basePathSegments @ pathSegments;
          absolutePath = absolute h absolutePathSegments;
          new = (\<lambda>childPaths.
                   case attachToNew createNative h attach basePathSegments root pathSegments
                          childPaths io of
                     Inl e \<Rightarrow> Inl e
                   | Inr (native, root', io') \<Rightarrow> Inr (root', io'))
      in
      case lookup root pathSegments [] [] of
        Inl e \<Rightarrow> Inl e
      | Inr (ParentResult pos native parentSegments remaining) \<Rightarrow>
          if \<not> reuseAncestorWatchers opts then new []
          else Inr (addChildPathAt h root pos remaining,
                    emit (attach native (absolute h parentSegments)) io)
      | Inr (ChildrenResult children) \<Rightarrow>
          (case attachToNew createNative h attach basePathSegments root pathSegments
                  (map snd children) io of
             Inl e \<Rightarrow> Inl e
           | Inr (newNative, root', io') \<Rightarrow>
               Inr (root', replaceNatives children newNative absolutePath io'))
      | Inr (MissingResult lastParent up) \<Rightarrow>
          if \<not> mergeWatchersWithCommonAncestors opts then new []
          else if (case lastParent of RegistryNode None ch \<Rightarrow> True | _ \<Rightarrow> False) then new []
          else
            (case leaves lastParent basePathSegments of
               Inl e \<Rightarrow> Inl e
             | Inr ls \<Rightarrow>
                 if ls = [] then new []
                 else
                   let ancestorPathSegments = getPathSegments lastParent up;
                       remainingPathSegments = drop (length ancestorPathSegments) pathSegments;
                       difference = int (length pathSegments) - int (length ancestorPathSegments)
                   in if difference > maxCommonAncestorLevel opts then new []
                      else
                        (case attachToAncestor createNative h attach root ancestorPathSegments
                                (map snd ls @ [remainingPathSegments]) io of
                           Inl e \<Rightarrow> Inl e
                         | Inr (newNative, root', io') \<Rightarrow>
                             Inr (root', replaceNatives ls newNative
                                           (absolute h (map the ancestorPathSegments)) io'))))"

text \<open>\<open>replacedWithNode\<close> of \<open>RegistryWatcherNode.remove\<close>: a new tree based at the
  watcher node's path, to which every child path is added; each native watcher it
  obtains is offered to the listeners of the old one.\<close>

fun addChildPaths ::
  "(string \<Rightarrow> 'a reg_io_scheme \<Rightarrow> js_error + (nat \<times> 'a reg_io_scheme)) \<Rightarrow> options \<Rightarrow> host
     \<Rightarrow> nat \<Rightarrow> string list \<Rightarrow> string list \<Rightarrow> node \<Rightarrow> 'a reg_io_scheme
     \<Rightarrow> js_error + (node \<times> 'a reg_io_scheme)"
where
  "addChildPaths createNative opts h nativeWatcher base [] root io = Inr (root, io)"
| "addChildPaths createNative opts h nativeWatcher base (childPath # rest) root io =
     (case add createNative opts h
             (\<lambda>native attachmentPath. ReattachListenersTo nativeWatcher native attachmentPath)
             base root (split_on (path_sep h) childPath) io of
        Inl e \<Rightarrow> Inl e
      | Inr (root', io') \<Rightarrow> addChildPaths createNative opts h nativeWatcher base rest root' io')"

definition replacedWithNode ::
  "(string \<Rightarrow> 'a reg_io_scheme \<Rightarrow> js_error + (nat \<times> 'a reg_io_scheme)) \<Rightarrow> options \<Rightarrow> host
     \<Rightarrow> nat \<Rightarrow> string list \<Rightarrow> string list \<Rightarrow> 'a reg_io_scheme
     \<Rightarrow> js_error + (node option \<times> 'a reg_io_scheme)"
where
  "replacedWithNode createNative opts h nativeWatcher absolutePathSegments childPaths io =
     (case addChildPaths createNative opts h nativeWatcher absolutePathSegments childPaths
             (RegistryNode None []) io of
        Inl e \<Rightarrow> Inl e
      | Inr (root, io') \<Rightarrow> Inr (Some root, io'))"

text \<open>\<open>remove\<close> of both node classes; \<open>None\<close> is the result \<open>null\<close>.\<close>

fun remove ::
  "(string \<Rightarrow> 'a reg_io_scheme \<Rightarrow> js_error + (nat \<times> 'a reg_io_scheme)) \<Rightarrow> options \<Rightarrow> host
     \<Rightarrow> node \<Rightarrow> string list \<Rightarrow> 'a reg_io_scheme \<Rightarrow> js_error + (node option \<times> 'a reg_io_scheme)"
where
  "remove createNative opts h (RegistryWatcherNode n aps cps) pathSegments io =
     (if pathSegments \<noteq> [] then
        (let cps' = set_delete cps (path_join h pathSegments) in
         if length cps' = 1 then replacedWithNode createNative opts h n aps cps' io
         else Inr (Some (RegistryWatcherNode n aps cps'), io))
      else if length cps > 0 then replacedWithNode createNative opts h n aps cps io
      else Inr (None, io))"
| "remove createNative opts h Undefined pathSegments io = Inl (TypeError ''remove of undefined'')"
| "remove createNative opts h (RegistryNode pk ch) [] io = Inr (Some (RegistryNode pk ch), io)"
| "remove createNative opts h (RegistryNode pk ch) (s # segs) io =
     (case map_of ch s of
        None \<Rightarrow> Inr (Some (RegistryNode pk ch), io)
      | Some Undefined \<Rightarrow> Inr (Some (RegistryNode pk ch), io)
      | Some child \<Rightarrow>
          (case remove createNative opts h child segs io of
             Inl e \<Rightarrow> Inl e
           | Inr (newChild, io') \<Rightarrow>
               let ch' = (case newChild of
                            None \<Rightarrow> dict_delete ch s
                          | Some c \<Rightarrow> dict_set ch s c)
               in Inr (if ch' = [] then None else Some (RegistryNode pk ch'), io')))"

text \<open>\<open>RegistryTree.remove\<close>.\<close>

definition tree_remove ::
  "(string \<Rightarrow> 'a reg_io_scheme \<Rightarrow> js_error + (nat \<times> 'a reg_io_scheme)) \<Rightarrow> options \<Rightarrow> host
     \<Rightarrow> node \<Rightarrow> string list \<Rightarrow> 'a reg_io_scheme \<Rightarrow> js_error + (node \<times> 'a reg_io_scheme)"
where
  "tree_remove createNative opts h root pathSegments io =
     (case remove createNative opts h root pathSegments io of
        Inl e \<Rightarrow> Inl e
      | Inr (None, io') \<Rightarrow> Inr (RegistryNode None [], io')
      | Inr (Some root', io') \<Rightarrow> Inr (root', io'))"

text \<open>\<open>NativeWatcherRegistry.attach\<close> and \<open>detach\<close> for a subscription whose normalized
  directory is known: the registry's tree is based at the root of the file system.\<close>

definition pathSegmentsOf :: "host \<Rightarrow> string \<Rightarrow> string list" where
  "pathSegmentsOf h normalizedDirectory =
     filter (\<lambda>segment. length segment > 0) (split_on (path_sep h) normalizedDirectory)"

definition attach ::
  "(string \<Rightarrow> 'a reg_io_scheme \<Rightarrow> js_error + (nat \<times> 'a reg_io_scheme)) \<Rightarrow> options \<Rightarrow> host
     \<Rightarrow> node \<Rightarrow> string \<Rightarrow> 'a reg_io_scheme \<Rightarrow> js_error + (node \<times> 'a reg_io_scheme)"
where
  "attach createNative opts h root normalizedDirectory io =
     add createNative opts h AttachToNative [] root (pathSegmentsOf h normalizedDirectory) io"

definition detach ::
  "(string \<Rightarrow> 'a reg_io_scheme \<Rightarrow> js_error + (nat \<times> 'a reg_io_scheme)) \<Rightarrow> options \<Rightarrow> host
     \<Rightarrow> node \<Rightarrow> string \<Rightarrow> 'a reg_io_scheme \<Rightarrow> js_error + (node \<times> 'a reg_io_scheme)"
where
  "detach createNative opts h root normalizedDirectory io =
     tree_remove createNative opts h root (pathSegmentsOf h normalizedDirectory) io"

section \<open>The macOS backend (\<open>lib/platform/FSEventsFileWatcher.cpp\<close>)\<close>

text \<open>
  The flags of an FSEvents event are the constants of \<open>CoreServices/FSEvents.h\<close>, which
  the file uses by name.
\<close>

definition kFSEventStreamEventFlagUserDropped :: "32 word" where
  "kFSEventStreamEventFlagUserDropped = 0x00000002"
definition kFSEventStreamEventFlagKernelDropped :: "32 word" where
  "kFSEventStreamEventFlagKernelDropped = 0x00000004"
definition kFSEventStreamEventFlagEventIdsWrapped :: "32 word" where
  "kFSEventStreamEventFlagEventIdsWrapped = 0x00000008"
definition kFSEventStreamEventFlagHistoryDone :: "32 word" where
  "kFSEventStreamEventFlagHistoryDone = 0x00000010"
definition kFSEventStreamEventFlagRootChanged :: "32 word" where
  "kFSEventStreamEventFlagRootChanged = 0x00000020"
definition kFSEventStreamEventFlagMount :: "32 word" where
  "kFSEventStreamEventFlagMount = 0x00000040"
definition kFSEventStreamEventFlagUnmount :: "32 word" where
  "kFSEventStreamEventFlagUnmount = 0x00000080"
definition kFSEventStreamEventFlagItemCreated :: "32 word" where
  "kFSEventStreamEventFlagItemCreated = 0x00000100"
definition kFSEventStreamEventFlagItemRemoved :: "32 word" where
  "kFSEventStreamEventFlagItemRemoved = 0x00000200"
definition kFSEventStreamEventFlagItemInodeMetaMod :: "32 word" where
  "kFSEventStreamEventFlagItemInodeMetaMod = 0x00000400"
definition kFSEventStreamEventFlagItemRenamed :: "32 word" where
  "kFSEventStreamEventFlagItemRenamed = 0x00000800"
definition kFSEventStreamEventFlagItemModified :: "32 word" where
  "kFSEventStreamEventFlagItemModified = 0x00001000"
definition kFSEventStreamEventFlagItemFinderInfoMod :: "32 word" where
  "kFSEventStreamEventFlagItemFinderInfoMod = 0x00002000"

definition shorthandFSEventsModified :: "32 word" where
  "shorthandFSEventsModified =
     kFSEventStreamEventFlagItemFinderInfoMod OR kFSEventStreamEventFlagItemModified
       OR kFSEventStreamEventFlagItemInodeMetaMod"

definition dropFlags :: "32 word" where
  "dropFlags =
     kFSEventStreamEventFlagUserDropped OR kFSEventStreamEventFlagKernelDropped
       OR kFSEventStreamEventFlagEventIdsWrapped OR kFSEventStreamEventFlagHistoryDone
       OR kFSEventStreamEventFlagMount OR kFSEventStreamEventFlagUnmount
       OR kFSEventStreamEventFlagRootChanged"

definition changeFlags :: "32 word" where
  "changeFlags =
     kFSEventStreamEventFlagItemCreated OR kFSEventStreamEventFlagItemRemoved
       OR kFSEventStreamEventFlagItemRenamed"

text \<open>\<open>flags & mask\<close> used as a condition.\<close>

definition hasFlag :: "32 word \<Rightarrow> 32 word \<Rightarrow> bool" where
  "hasFlag flags bits = (flags AND bits \<noteq> 0)"

record FSEvent =
  fse_path :: string
  fse_flags :: "32 word"
  fse_id :: "64 word"
  fse_inode :: "64 word"

datatype efsw_Action = Actions_Add | Actions_Delete | Actions_Modified | Actions_Moved

text \<open>One call of the listener's \<open>handleFileAction\<close>.\<close>

record file_action =
  fa_watchid :: int
  fa_dir :: string
  fa_filename :: string
  fa_action :: efsw_Action
  fa_oldFilename :: string

text \<open>
  What the backend asks of macOS: \<open>stat\<close> (in \<open>PathExists\<close>) and the Unicode
  precomposition of CoreFoundation (in \<open>PrecomposeFileName\<close>).
\<close>

record mac_host =
  pathExists :: "string \<Rightarrow> bool"
  precomposeFileName :: "string \<Rightarrow> string"

text \<open>
  The watcher: \<open>handlesToPaths\<close> in the order in which the unordered map enumerates
  it, the handles that have a listener, the set \<open>dirsChanged\<close>, and the calls made to
  listeners so far.
\<close>

record FSEventsFileWatcher =
  handlesToPaths :: "(int \<times> string) list"
  handlesToListeners :: "int list"
  dirsChanged :: "string list"
  delivered :: "file_action list"

definition PATH_SEPARATOR :: char where
  "PATH_SEPARATOR = CHR ''/''"

text \<open>\<open>NormalizePath\<close>. (On the empty string \<open>path.back()\<close> is undefined in C++; the
  model appends the separator.)\<close>

definition NormalizePath :: "string \<Rightarrow> string" where
  "NormalizePath p = (if p \<noteq> [] \<and> last p = PATH_SEPARATOR then p else p @ [PATH_SEPARATOR])"

definition PathsAreEqual :: "string \<Rightarrow> string \<Rightarrow> bool" where
  "PathsAreEqual pathA pathB = (NormalizePath pathA = NormalizePath pathB)"

definition PathStartsWith :: "string \<Rightarrow> string \<Rightarrow> bool" where
  "PathStartsWith str prefix =
     (if PathsAreEqual str prefix then True
      else if length prefix > length str then False
      else take (length prefix) str = prefix)"

text \<open>\<open>std::string::find_last_of\<close> for one character; \<open>None\<close> is \<open>npos\<close>.\<close>

fun find_last_of :: "string \<Rightarrow> char \<Rightarrow> nat option" where
  "find_last_of [] c = None"
| "find_last_of (x # xs) c =
     (case find_last_of xs c of
        Some i \<Rightarrow> Some (Suc i)
      | None \<Rightarrow> if x = c then Some 0 else None)"

definition DirRemoveSlashAtEnd :: "string \<Rightarrow> string" where
  "DirRemoveSlashAtEnd dir =
     (if length dir \<ge> 1 \<and> last dir = PATH_SEPARATOR then butlast dir else dir)"

definition PathWithoutFileName :: "string \<Rightarrow> string" where
  "PathWithoutFileName filepath =
     (let fp = DirRemoveSlashAtEnd filepath in
      case find_last_of fp PATH_SEPARATOR of
        Some pos \<Rightarrow> take (pos + 1) fp
      | None \<Rightarrow> fp)"

definition FileNameFromPath :: "string \<Rightarrow> string" where
  "FileNameFromPath filepath =
     (let fp = DirRemoveSlashAtEnd filepath in
      case find_last_of fp PATH_SEPARATOR of
        Some pos \<Rightarrow> drop (pos + 1) fp
      | None \<Rightarrow> fp)"

text \<open>\<open>strcasecmp(a, b) == 0\<close> on ASCII.\<close>

definition ascii_tolower :: "char \<Rightarrow> char" where
  "ascii_tolower c =
     (let n = (of_char c :: nat) in if 65 \<le> n \<and> n \<le> 90 then char_of (n + 32) else c)"

definition strcasecmp_eq :: "string \<Rightarrow> string \<Rightarrow> bool" where
  "strcasecmp_eq a b = (map ascii_tolower a = map ascii_tolower b)"

definition sendFileAction ::
  "mac_host \<Rightarrow> int \<Rightarrow> string \<Rightarrow> string \<Rightarrow> efsw_Action \<Rightarrow> string \<Rightarrow> FSEventsFileWatcher
     \<Rightarrow> FSEventsFileWatcher"
where
  "sendFileAction mh watchid dir filename act oldFilename fw =
     (if watchid \<notin> set (handlesToListeners fw) then fw
      else fw\<lparr>delivered := delivered fw @
             [\<lparr> fa_watchid = watchid,
                fa_dir = precomposeFileName mh dir,
                fa_filename = precomposeFileName mh filename,
                fa_action = act,
                fa_oldFilename = precomposeFileName mh oldFilename \<rparr>]\<rparr>)"

definition handleAddModDel ::
  "mac_host \<Rightarrow> int \<Rightarrow> 32 word \<Rightarrow> string \<Rightarrow> string \<Rightarrow> string \<Rightarrow> FSEventsFileWatcher
     \<Rightarrow> FSEventsFileWatcher"
where
  "handleAddModDel mh handle flags path' dirPath filePath fw =
     (let fw1 = (if hasFlag flags kFSEventStreamEventFlagItemCreated \<and> pathExists mh path'
                 then sendFileAction mh handle dirPath filePath Actions_Add [] fw else fw);
          fw2 = (if hasFlag flags shorthandFSEventsModified
                 then sendFileAction mh handle dirPath filePath Actions_Modified [] fw1 else fw1)
      in if hasFlag flags kFSEventStreamEventFlagItemRemoved \<and> \<not> pathExists mh path'
         then sendFileAction mh handle dirPath filePath Actions_Delete [] fw2 else fw2)"

text \<open>The loop over \<open>handlesToPaths\<close> that collects at most two matches.\<close>

fun findMatches :: "string \<Rightarrow> (int \<times> string) list \<Rightarrow> (int \<times> string) list \<Rightarrow> (int \<times> string) list" where
  "findMatches eventPath [] matches = matches"
| "findMatches eventPath (pair # rest) matches =
     (let normalizedPath = NormalizePath (snd pair) in
      if \<not> PathStartsWith eventPath normalizedPath then findMatches eventPath rest matches
      else if \<not> PathsAreEqual eventPath normalizedPath
              \<and> find_last_of eventPath PATH_SEPARATOR \<noteq> Some (length normalizedPath - 1)
      then findMatches eventPath rest matches
      else
        let matches' = matches @ [pair] in
        if length matches' = 2 then matches' else findMatches eventPath rest matches')"

definition dirsChanged_insert :: "string \<Rightarrow> FSEventsFileWatcher \<Rightarrow> FSEventsFileWatcher" where
  "dirsChanged_insert d fw = fw\<lparr>dirsChanged := List.insert d (dirsChanged fw)\<rparr>"

text \<open>
  The body of the loop over the matches, for the match \<open>m\<close> at index \<open>i\<close>. In the
  source this loop declares its own \<open>i\<close>, which hides the index of the event: the
  next event is read as \<open>events[i + 1]\<close> with the index of the match, and the \<open>i++\<close>
  that skips the renamed file advances the index of the match. The result says
  whether that \<open>i++\<close> was executed.
\<close>

definition handleMatch ::
  "mac_host \<Rightarrow> FSEvent list \<Rightarrow> FSEvent \<Rightarrow> nat \<Rightarrow> (int \<times> string) \<Rightarrow> FSEventsFileWatcher
     \<Rightarrow> FSEventsFileWatcher \<times> bool"
where
  "handleMatch mh events event i m fw =
     (let esize = length events;
          dirPath = PathWithoutFileName (fse_path event);
          filePath = FileNameFromPath (fse_path event);
          path' = snd m;
          handle = fst m;
          fw1 = (if hasFlag (fse_flags event) changeFlags \<and> dirPath \<noteq> path'
                 then dirsChanged_insert dirPath fw else fw)
      in
      if hasFlag (fse_flags event) kFSEventStreamEventFlagItemRenamed then
        (if i + 1 < esize
            \<and> hasFlag (fse_flags (events ! (i + 1))) kFSEventStreamEventFlagItemRenamed
            \<and> fse_inode (events ! (i + 1)) = fse_inode event
         then
           (let nEvent = events ! (i + 1);
                newDir = PathWithoutFileName (fse_path nEvent);
                newFilepath = FileNameFromPath (fse_path nEvent);
                fw2 =
                  (if fse_path event \<noteq> fse_path nEvent then
                     (if dirPath = newDir then
                        (if \<not> pathExists mh (fse_path event)
                            \<or> strcasecmp_eq (fse_path event) (fse_path nEvent)
                         then sendFileAction mh handle dirPath newFilepath Actions_Moved filePath fw1
                         else sendFileAction mh handle dirPath filePath Actions_Moved newFilepath fw1)
                      else
                        (let fa = sendFileAction mh handle dirPath filePath Actions_Delete [] fw1;
                             fb = sendFileAction mh handle newDir newFilepath Actions_Add [] fa
                         in if hasFlag (fse_flags nEvent) shorthandFSEventsModified
                            then sendFileAction mh handle dirPath filePath Actions_Modified [] fb
                            else fb))
                   else handleAddModDel mh handle (fse_flags nEvent) (fse_path nEvent)
                          dirPath filePath fw1);
                fw3 = (if hasFlag (fse_flags nEvent) changeFlags \<and> newDir \<noteq> path'
                       then dirsChanged_insert newDir fw2 else fw2)
            in (fw3, True))
         else if pathExists mh (fse_path event) then
           (let fa = sendFileAction mh handle dirPath filePath Actions_Add [] fw1
            in (if hasFlag (fse_flags event) shorthandFSEventsModified
                then sendFileAction mh handle dirPath filePath Actions_Modified [] fa
                else fa, False))
         else (sendFileAction mh handle dirPath filePath Actions_Delete [] fw1, False))
      else
        (handleAddModDel mh handle (fse_flags event) (fse_path event) dirPath filePath fw1, False))"

fun matchLoop ::
  "mac_host \<Rightarrow> FSEvent list \<Rightarrow> FSEvent \<Rightarrow> nat \<Rightarrow> (int \<times> string) list \<Rightarrow> FSEventsFileWatcher
     \<Rightarrow> FSEventsFileWatcher"
where
  "matchLoop mh events event i [] fw = fw"
| "matchLoop mh events event i (m # ms) fw =
     (case handleMatch mh events event i m fw of
        (fw', skipped) \<Rightarrow>
          if skipped then matchLoop mh events event (i + 2) (drop 1 ms) fw'
          else matchLoop mh events event (i + 1) ms fw')"

text \<open>
  The loop of \<open>handleActions\<close> over the events. An event with one of the dropped
  flags is passed over; an event without a match ends the whole function
  (\<open>return\<close>).
\<close>

fun handleEvents ::
  "mac_host \<Rightarrow> FSEvent list \<Rightarrow> FSEvent list \<Rightarrow> FSEventsFileWatcher \<Rightarrow> FSEventsFileWatcher"
where
  "handleEvents mh events [] fw = fw"
| "handleEvents mh events (event # rest) fw =
     (if hasFlag (fse_flags event) dropFlags then handleEvents mh events rest fw
      else
        let matches = findMatches (fse_path event) (handlesToPaths fw) [] in
        if matches = [] then fw
        else handleEvents mh events rest (matchLoop mh events event 0 matches fw))"

definition handleActions :: "mac_host \<Rightarrow> FSEvent list \<Rightarrow> FSEventsFileWatcher \<Rightarrow> FSEventsFileWatcher" where
  "handleActions mh events fw = handleEvents mh events events fw"

section \<open>The native watcher wrapper (\<open>NativeWatcher\<close> of \<open>src/main.js\<close>)\<close>

text \<open>
  A \<open>NativeWatcher\<close> object with the fields that decide whether it is registered:
  its path, the \<open>recursive\<close> option, \<open>running\<close> and the handle that the binding
  returned (\<open>None\<close> for \<open>undefined\<close>, before the first start).
\<close>

record NativeWatcher =
  nw_id :: nat
  nw_normalizedPath :: string
  nw_recursive :: bool
  nw_running :: bool
  nw_handle :: "int option"

text \<open>
  The state of the class: the counter \<open>NativeWatcherId\<close>, the objects constructed so
  far (an object is identified by its \<open>id\<close>), the map \<open>INSTANCES\<close> from handles to
  objects in insertion order, and the number of calls of \<open>binding.watch\<close> made so far.
\<close>

record native_world =
  NativeWatcherId :: nat
  objects :: "NativeWatcher list"
  INSTANCES :: "(int \<times> nat) list"
  watchCalls :: nat

definition the_object :: "native_world \<Rightarrow> nat \<Rightarrow> NativeWatcher option" where
  "the_object w i = find (\<lambda>n. nw_id n = i) (objects w)"

definition update_object :: "nat \<Rightarrow> (NativeWatcher \<Rightarrow> NativeWatcher) \<Rightarrow> native_world \<Rightarrow> native_world" where
  "update_object i f w = w\<lparr>objects := map (\<lambda>n. if nw_id n = i then f n else n) (objects w)\<rparr>"

definition pathOfInstance :: "native_world \<Rightarrow> nat \<Rightarrow> string option" where
  "pathOfInstance w i = map_option nw_normalizedPath (the_object w i)"

text \<open>\<open>NativeWatcher.findOrCreate\<close>: the first instance of \<open>INSTANCES\<close> with the path,
  or a new object, which is not running and not in \<open>INSTANCES\<close>.\<close>

definition findOrCreate :: "native_world \<Rightarrow> string \<Rightarrow> bool \<Rightarrow> nat \<times> native_world" where
  "findOrCreate w normalizedPath' recursive =
     (case find (\<lambda>entry. pathOfInstance w (snd entry) = Some normalizedPath') (INSTANCES w) of
        Some entry \<Rightarrow> (snd entry, w)
      | None \<Rightarrow>
          (NativeWatcherId w,
           w\<lparr> NativeWatcherId := Suc (NativeWatcherId w),
               objects := objects w @
                 [\<lparr> nw_id = NativeWatcherId w, nw_normalizedPath = normalizedPath',
                    nw_recursive = recursive, nw_running = False, nw_handle = None \<rparr>] \<rparr>))"

text \<open>\<open>Map.prototype.set\<close> and \<open>delete\<close> on \<open>INSTANCES\<close>.\<close>

definition map_set :: "(int \<times> nat) list \<Rightarrow> int \<Rightarrow> nat \<Rightarrow> (int \<times> nat) list" where
  "map_set m k v =
     (if k \<in> fst ` set m then map (\<lambda>entry. if fst entry = k then (k, v) else entry) m
      else m @ [(k, v)])"


text \<open>
  \<open>start\<close>: nothing happens when the object runs already or its path does not exist;
  otherwise \<open>binding.watch\<close> is called, and the object is entered in \<open>INSTANCES\<close> under
  the handle that it returns. The binding is the native layer, which differs from
  platform to platform; what its \<open>k\<close>-th call returns for a path and the \<open>recursive\<close>
  option, a handle or an exception, is the parameter \<open>binding_watch\<close>. An exception
  leaves \<open>start\<close> before the object is touched. A call on an identity that no object has
  does nothing.
\<close>

definition start ::
  "host \<Rightarrow> (nat \<Rightarrow> string \<Rightarrow> bool \<Rightarrow> js_error + int) \<Rightarrow> nat \<Rightarrow> native_world
     \<Rightarrow> js_error option \<times> native_world"
where
  "start h binding_watch i w =
     (case the_object w i of
        None \<Rightarrow> (None, w)
      | Some n \<Rightarrow>
          if nw_running n then (None, w)
          else if \<not> fs_existsSync h (nw_normalizedPath n) then (None, w)
          else
            (let w1 = w\<lparr>watchCalls := Suc (watchCalls w)\<rparr> in
             case binding_watch (watchCalls w) (nw_normalizedPath n) (nw_recursive n) of
               Inl e \<Rightarrow> (Some e, w1)
             | Inr handle \<Rightarrow>
                 let w2 = update_object i (\<lambda>n. n\<lparr>nw_handle := Some handle\<rparr>) w1;
                     w3 = w2\<lparr>INSTANCES := map_set (INSTANCES w2) handle i\<rparr>
                 in (None, update_object i (\<lambda>n. n\<lparr>nw_running := True\<rparr>) w3)))"



text \<open>The class before any object is constructed.\<close>

definition world0 :: native_world where
  "world0 = \<lparr>NativeWatcherId = 1, objects = [], INSTANCES = [], watchCalls = 0\<rparr>"









section \<open>The registry of \<open>src/main.js\<close> and \<open>PathWatcher.onDidChange\<close>\<close>

text \<open>
  The options of \<open>REGISTRY\<close>: \<open>getDefaultRegistryOptionsForPlatform(process.platform)\<close>
  laid over \<open>DEFAULT_OPTIONS\<close> by the constructor of the registry.
\<close>

datatype platform = Linux | Win32 | Darwin | OtherPlatform

definition getDefaultRegistryOptionsForPlatform :: "platform \<Rightarrow> options" where
  "getDefaultRegistryOptionsForPlatform pf =
     (case pf of
        Linux \<Rightarrow> DEFAULT_OPTIONS\<lparr> reuseAncestorWatchers := False,
                                   relocateDescendantWatchers := False,
                                   relocateAncestorWatchers := False,
                                   mergeWatchersWithCommonAncestors := False \<rparr>
      | Win32 \<Rightarrow> DEFAULT_OPTIONS\<lparr> reuseAncestorWatchers := False,
                                   relocateDescendantWatchers := False,
                                   relocateAncestorWatchers := False,
                                   mergeWatchersWithCommonAncestors := False \<rparr>
      | Darwin \<Rightarrow> DEFAULT_OPTIONS\<lparr> reuseAncestorWatchers := True,
                                    relocateDescendantWatchers := False,
                                    relocateAncestorWatchers := True,
                                    mergeWatchersWithCommonAncestors := True,
                                    maxCommonAncestorLevel := 2 \<rparr>
      | OtherPlatform \<Rightarrow> DEFAULT_OPTIONS\<lparr> reuseAncestorWatchers := True,
                                           relocateDescendantWatchers := False,
                                           relocateAncestorWatchers := True,
                                           mergeWatchersWithCommonAncestors := False \<rparr>)"

text \<open>
  \<open>registryOptionsToNativeWatcherOptions\<close>: the option \<open>recursive\<close>. Its argument is
  destructured, which throws a \<open>TypeError\<close> when it is \<open>undefined\<close> (\<open>None\<close>).
\<close>

definition registryOptionsToNativeWatcherOptions :: "options option \<Rightarrow> js_error + bool" where
  "registryOptionsToNativeWatcherOptions registryOptions =
     (case registryOptions of
        None \<Rightarrow> Inl (TypeError ''Cannot destructure property of undefined'')
      | Some ro \<Rightarrow>
          Inr (relocateAncestorWatchers ro \<or> relocateDescendantWatchers ro
               \<or> reuseAncestorWatchers ro \<or> mergeWatchersWithCommonAncestors ro))"

text \<open>
  The state of \<open>REGISTRY\<close> and of what it reaches: the root of its tree, the class
  \<open>NativeWatcher\<close>, and the record of the registry's calls.
\<close>

record registry_state = reg_io +
  tree_root :: node
  natives :: native_world

definition registry0 :: registry_state where
  "registry0 = \<lparr>created = 0, effects = [], tree_root = RegistryNode None [], natives = world0\<rparr>"

text \<open>
  The function that \<open>REGISTRY\<close> is constructed with, of two parameters. Its arguments
  are evaluated before \<open>findOrCreate\<close> is called. (Its first statement sets the flag
  \<open>initialized\<close>, which \<open>watch\<close> has set before the registry is reached.)
\<close>

definition REGISTRY_createNative ::
  "string \<Rightarrow> options option \<Rightarrow> registry_state \<Rightarrow> js_error + (nat \<times> registry_state)"
where
  "REGISTRY_createNative normalizedPath' registryOptions s =
     (case registryOptionsToNativeWatcherOptions registryOptions of
        Inl e \<Rightarrow> Inl e
      | Inr recursive \<Rightarrow>
          (case findOrCreate (natives s) normalizedPath' recursive of
             (i, w') \<Rightarrow> Inr (i, s\<lparr>natives := w'\<rparr>)))"

text \<open>The native watcher that the last call of \<open>attachToNative\<close> among the given calls
  handed to the subscription.\<close>

fun attachedNative :: "effect list \<Rightarrow> nat option" where
  "attachedNative [] = None"
| "attachedNative (AttachToNative n p # es) =
     (case attachedNative es of None \<Rightarrow> Some n | Some m \<Rightarrow> Some m)"
| "attachedNative (e # es) = attachedNative es"

text \<open>
  \<open>PathWatcher.onDidChange\<close> on a subscription that has no native watcher yet, as
  \<open>watch\<close> calls it on the subscription that it has just constructed. The subscription
  asks the registry for a native watcher: \<open>registry.attach(this)\<close> runs
  \<open>RegistryTree.add\<close>, in which the registry calls \<open>this.createNative\<close> with one
  argument, the path, so that the second parameter of the function of \<open>REGISTRY\<close> is
  \<open>undefined\<close>. An exception leaves \<open>add\<close> before it has changed the tree. When \<open>attach\<close>
  returns, \<open>onDidChange\<close> calls itself, now with the native watcher that
  \<open>attachToNative\<close> has stored: \<open>native.onDidChange\<close> starts the native watcher, and
  \<open>this.native.start()\<close> is called once more. (Without a native watcher stored the
  method would call itself without end.) A subscription whose normalized path is the
  empty string is attached later, from a promise; \<open>onDidChange\<close> returns at once.
\<close>

definition PathWatcher_onDidChange ::
  "host \<Rightarrow> options \<Rightarrow> (nat \<Rightarrow> string \<Rightarrow> bool \<Rightarrow> js_error + int) \<Rightarrow> path_watcher \<Rightarrow> registry_state
     \<Rightarrow> (js_error + path_watcher) \<times> registry_state"
where
  "PathWatcher_onDidChange h opts binding_watch watcher s =
     (if normalizedPath watcher = [] then (Inr watcher, s)
      else
        case attach (\<lambda>p. REGISTRY_createNative p None) opts h (tree_root s)
               (normalizedPath watcher) s of
          Inl e \<Rightarrow> (Inl e, s)
        | Inr (root', s1) \<Rightarrow>
            (case attachedNative (drop (length (effects s)) (effects s1)) of
               None \<Rightarrow> (Inl (RangeError ''Maximum call stack size exceeded''),
                         s1\<lparr>tree_root := root'\<rparr>)
             | Some native \<Rightarrow>
                 (case start h binding_watch native (natives s1) of
                    (Some e, w1) \<Rightarrow> (Inl e, s1\<lparr>tree_root := root', natives := w1\<rparr>)
                  | (None, w1) \<Rightarrow>
                      (case start h binding_watch native w1 of
                         (Some e, w2) \<Rightarrow> (Inl e, s1\<lparr>tree_root := root', natives := w2\<rparr>)
                       | (None, w2) \<Rightarrow> (Inr watcher, s1\<lparr>tree_root := root', natives := w2\<rparr>)))))"

section \<open>A concrete host\<close>

text \<open>
  A small POSIX host on which the definitions are evaluated: \<open>posix_dirname\<close> follows
  Node's \<open>path.posix.dirname\<close>; the file system holds the directories \<open>/\<close>, \<open>/X\<close>,
  \<open>/X/d\<close> and the files \<open>/X/f\<close>, \<open>/X/g\<close>; the working directory is \<open>/X\<close>.
\<close>

definition posix_dirname :: "string \<Rightarrow> string" where
  "posix_dirname p =
     (if p = [] then ''.''
      else
        let hasRoot = (hd p = CHR ''/'');
            r = dropWhile (\<lambda>c. c \<noteq> CHR ''/'') (dropWhile (\<lambda>c. c = CHR ''/'') (rev (tl p)))
        in if r = [] then (if hasRoot then ''/'' else ''.'')
           else if hasRoot \<and> length r = 1 then ''//''
           else take (length r) p)"

text \<open>\<open>posix_join\<close> follows Node's \<open>path.posix.join\<close>: the non-empty arguments are
  joined with \<open>/\<close> and the result is normalized.\<close>

fun join_with :: "char \<Rightarrow> string list \<Rightarrow> string" where
  "join_with c [] = []"
| "join_with c [s] = s"
| "join_with c (s # t # ss) = s @ c # join_with c (t # ss)"

fun normalize_segments :: "bool \<Rightarrow> string list \<Rightarrow> string list \<Rightarrow> string list" where
  "normalize_segments allowAboveRoot acc [] = rev acc"
| "normalize_segments allowAboveRoot acc (s # ss) =
     (if s = [] \<or> s = ''.'' then normalize_segments allowAboveRoot acc ss
      else if s = ''..'' then
        (case acc of
           a # as \<Rightarrow>
             if a \<noteq> ''..'' then normalize_segments allowAboveRoot as ss
             else if allowAboveRoot then normalize_segments allowAboveRoot (s # acc) ss
             else normalize_segments allowAboveRoot acc ss
         | [] \<Rightarrow>
             if allowAboveRoot then normalize_segments allowAboveRoot [s] ss
             else normalize_segments allowAboveRoot [] ss)
      else normalize_segments allowAboveRoot (s # acc) ss)"

definition posix_normalize :: "string \<Rightarrow> string" where
  "posix_normalize p =
     (if p = [] then ''.''
      else
        let isAbs = (hd p = CHR ''/'');
            trailing = (last p = CHR ''/'');
            body = join_with (CHR ''/'') (normalize_segments (\<not> isAbs) [] (split_on (CHR ''/'') p))
        in if body = [] then (if isAbs then ''/'' else if trailing then ''./'' else ''.'')
           else (if isAbs then ''/'' else []) @ body @ (if trailing then ''/'' else []))"

definition posix_join :: "string list \<Rightarrow> string" where
  "posix_join args =
     (let nonempty = filter (\<lambda>a. a \<noteq> []) args in
      if nonempty = [] then ''.'' else posix_normalize (join_with (CHR ''/'') nonempty))"

definition demo_stat :: "string \<Rightarrow> bool option" where
  "demo_stat p =
     (if p = ''/X'' \<or> p = ''/X/d'' \<or> p = ''/'' then Some True
      else if p = ''/X/f'' \<or> p = ''/X/g'' then Some False
      else None)"

definition demo_host :: host where
  "demo_host =
     \<lparr> path_sep = CHR ''/'',
       path_dirname = posix_dirname,
       path_join = posix_join,
       path_isAbsolute = (\<lambda>p. startsWith p ''/''),
       path_resolve = (\<lambda>p. if startsWith p ''/'' then p else ''/X/'' @ p),
       fs_existsSync = (\<lambda>p. case demo_stat p of None \<Rightarrow> False | Some d \<Rightarrow> True),
       fs_realpathSync = (\<lambda>p. case demo_stat p of None \<Rightarrow> None | Some d \<Rightarrow> Some p),
       fs_statIsDirectory = demo_stat \<rparr>"

text \<open>The subscription that the constructor builds for the file \<open>/X/f\<close>.\<close>

definition demo_file_watcher :: path_watcher where
  "demo_file_watcher =
     \<lparr> watchedPath = ''/X/f'', normalizedPath = ''/X'', originalNormalizedPath = ''/X/f'',
       isWatchingParent = True, active = True \<rparr>"

text \<open>A binding that accepts every directory and hands out the next handle of a counter,
  as \<open>FSEventsFileWatcher::addWatch\<close> does (\<open>nextHandleID++\<close>); the counter starts at 0
  here.\<close>

definition demo_binding_watch :: "nat \<Rightarrow> string \<Rightarrow> bool \<Rightarrow> js_error + int" where
  "demo_binding_watch k p recursive = Inr (int k)"

lemmas demo_simps = demo_host_def demo_stat_def demo_file_watcher_def posix_dirname_def
  onNativeEvent_def switchAction_def isWatchedPath_def sep_def endsWith_def moveToPath_def
  isDirectory_def new_PathWatcher_def getRealFilePath_def Let_def

text \<open>Registry inputs: the tree after \<open>watch("/X/a")\<close>, and the tree in which the watcher
  node at \<open>/X\<close> serves the child paths \<open>a\<close> and \<open>b\<close>.\<close>

definition tree_Xa :: node where
  "tree_Xa =
     RegistryNode None
       [(''X'', RegistryNode (Some ''X'') [(''a'', RegistryWatcherNode 0 [''X'', ''a''] [])])]"

definition tree_X_ab :: node where
  "tree_X_ab = RegistryNode None [(''X'', RegistryWatcherNode 0 [''X''] [''a'', ''b''])]"

lemmas registry_simps = attach_def detach_def tree_remove_def add_def replacedWithNode_def
  pathSegmentsOf_def absolute_def attachToNew_def attachToAncestor_def replaceNatives_def
  counting_createNative_def emit_def new_RegistryWatcherNode_def dict_set_def dict_delete_def
  set_add_def set_delete_def truthy_def DEFAULT_OPTIONS_def
  demo_host_def posix_join_def posix_normalize_def Let_def

text \<open>
  Inputs of the macOS backend: a watcher with the handle 1 on \<open>/w/a\<close>, a host on which
  exactly the listed paths exist and file names are precomposed already, and events
  that carry the flag \<open>ItemRenamed\<close> (\<open>0x800\<close>), alone or with \<open>ItemModified\<close>
  (\<open>0x1000\<close>), \<open>ItemCreated\<close> (\<open>0x100\<close>).
\<close>

definition demo_mac :: "string list \<Rightarrow> mac_host" where
  "demo_mac existing = \<lparr>pathExists = (\<lambda>p. p \<in> set existing), precomposeFileName = (\<lambda>s. s)\<rparr>"

definition demo_fsw :: FSEventsFileWatcher where
  "demo_fsw =
     \<lparr> handlesToPaths = [(1, ''/w/a'')], handlesToListeners = [1],
       dirsChanged = [], delivered = [] \<rparr>"

definition demo_event :: "string \<Rightarrow> 32 word \<Rightarrow> 64 word \<Rightarrow> FSEvent" where
  "demo_event p flags inode = \<lparr>fse_path = p, fse_flags = flags, fse_id = 0, fse_inode = inode\<rparr>"

lemmas fsevents_simps = handleActions_def handleMatch_def findMatches.simps matchLoop.simps
  handleAddModDel_def sendFileAction_def dirsChanged_insert_def hasFlag_def
  PathWithoutFileName_def FileNameFromPath_def DirRemoveSlashAtEnd_def PathStartsWith_def
  PathsAreEqual_def NormalizePath_def PATH_SEPARATOR_def strcasecmp_eq_def ascii_tolower_def
  changeFlags_def dropFlags_def shorthandFSEventsModified_def
  kFSEventStreamEventFlagUserDropped_def kFSEventStreamEventFlagKernelDropped_def
  kFSEventStreamEventFlagEventIdsWrapped_def kFSEventStreamEventFlagHistoryDone_def
  kFSEventStreamEventFlagRootChanged_def kFSEventStreamEventFlagMount_def
  kFSEventStreamEventFlagUnmount_def kFSEventStreamEventFlagItemCreated_def
  kFSEventStreamEventFlagItemRemoved_def kFSEventStreamEventFlagItemInodeMetaMod_def
  kFSEventStreamEventFlagItemRenamed_def kFSEventStreamEventFlagItemModified_def
  kFSEventStreamEventFlagItemFinderInfoMod_def
  demo_mac_def demo_fsw_def demo_event_def Let_def


section \<open>The event translator: theorems\<close>

lemma demo_file_watcher_constructed:
  "new_PathWatcher demo_host ''/X/f'' = Inr demo_file_watcher"
  by (simp add: demo_simps)

text \<open>
  C1, as stated, fails: when another file is renamed onto the watched file \<open>/X/f\<close>, the
  callback receives the action \<open>rename\<close> with the empty string, not the full new path
  \<open>/X/f\<close>.
\<close>

theorem rename_onto_target_carries_empty_path:
  "onNativeEvent demo_host demo_file_watcher
      \<lparr>action = ChildRename, path = ''/X/f'', oldPath = ''/X/g''\<rparr>
     = Inr (demo_file_watcher, Some (Rename, Some ''''))"
  by (simp add: demo_simps)

text \<open>
  C1, amended: for every call of the user's callback with action \<open>a\<close> and path argument
  \<open>p\<close>: if the raw event's path equals the subscription's exact target, \<open>p\<close> is \<open>null\<close>
  when \<open>a\<close> is \<open>delete\<close> and the empty string for every other action (a \<open>rename\<close>
  onto the target included); if it differs from the target, a \<open>change\<close> made from a
  \<open>child-\<close> raw event carries the empty string and a \<open>rename\<close> carries the raw event's
  full new path.
\<close>

theorem callback_path_convention:
  assumes "onNativeEvent h w event = Inr (w', Some (a, p))"
  shows "(path event = originalNormalizedPath w \<longrightarrow> p = (if a = Delete then None else Some ''''))
       \<and> (path event \<noteq> originalNormalizedPath w \<and> a = Change
            \<and> action event \<in> {ChildCreate, ChildDelete, ChildChange, ChildRename} \<longrightarrow> p = Some '''')
       \<and> (path event \<noteq> originalNormalizedPath w \<and> a = Rename \<longrightarrow> p = Some (path event))"
  using assms
  by (auto simp: onNativeEvent_def switchAction_def Let_def
           split: if_splits event_action.splits sum.splits option.splits prod.splits)

theorem callback_path_convention_witness:
  "onNativeEvent demo_host demo_file_watcher
      \<lparr>action = ChildRename, path = ''/X/g'', oldPath = ''/X/f''\<rparr>
     = Inr (demo_file_watcher\<lparr>originalNormalizedPath := ''/X/g''\<rparr>, Some (Rename, Some ''/X/g''))
   \<and> Some ''/X/g'' = Some (path \<lparr>action = ChildRename, path = ''/X/g'', oldPath = ''/X/f''\<rparr>)"
proof -
  have run: "onNativeEvent demo_host demo_file_watcher
      \<lparr>action = ChildRename, path = ''/X/g'', oldPath = ''/X/f''\<rparr>
     = Inr (demo_file_watcher\<lparr>originalNormalizedPath := ''/X/g''\<rparr>, Some (Rename, Some ''/X/g''))"
    by (simp add: demo_simps)
  from callback_path_convention [OF run] show ?thesis
    using run by (simp add: demo_file_watcher_def)
qed

text \<open>
  C2: a raw event neither of whose paths lies inside the subscription's normalized
  path (that is, starts with \<open>sep(normalizedPath)\<close>, the normalized path with its
  trailing separator) leaves the subscription as it is and calls no callback; hence
  every call of the callback comes from an event whose new or old path lies inside.
\<close>

theorem outside_events_dropped:
  "(\<not> isWatchedPath h w (path event) \<and> \<not> isWatchedPath h w (oldPath event)
      \<longrightarrow> onNativeEvent h w event = Inr (w, None))
   \<and> (\<forall>w' c. onNativeEvent h w event = Inr (w', Some c)
      \<longrightarrow> isWatchedPath h w (path event) \<or> isWatchedPath h w (oldPath event))"
  by (auto simp: onNativeEvent_def Let_def)

theorem outside_events_dropped_witness:
  "onNativeEvent demo_host demo_file_watcher
      \<lparr>action = ChildChange, path = ''/Y/f'', oldPath = ''''\<rparr> = Inr (demo_file_watcher, None)
   \<and> isWatchedPath demo_host demo_file_watcher ''/X/f''"
proof -
  let ?out = "\<lparr>action = ChildChange, path = ''/Y/f'', oldPath = ''''\<rparr>"
  let ?in = "\<lparr>action = ChildChange, path = ''/X/f'', oldPath = ''''\<rparr>"
  have outside: "\<not> isWatchedPath demo_host demo_file_watcher (path ?out)
      \<and> \<not> isWatchedPath demo_host demo_file_watcher (oldPath ?out)"
    by (simp add: demo_simps)
  have old_outside: "\<not> isWatchedPath demo_host demo_file_watcher (oldPath ?in)"
    by (simp add: demo_simps)
  have called: "onNativeEvent demo_host demo_file_watcher ?in
      = Inr (demo_file_watcher, Some (Change, Some ''''))"
    by (simp add: demo_simps)
  from outside_events_dropped [of demo_host demo_file_watcher ?out] outside
  have first: "onNativeEvent demo_host demo_file_watcher ?out = Inr (demo_file_watcher, None)"
    by blast
  from outside_events_dropped [of demo_host demo_file_watcher ?in] called
  have "isWatchedPath demo_host demo_file_watcher (path ?in)
      \<or> isWatchedPath demo_host demo_file_watcher (oldPath ?in)"
    by blast
  with old_outside have "isWatchedPath demo_host demo_file_watcher (path ?in)"
    by blast
  with first show ?thesis by simp
qed

text \<open>
  C4, as stated, fails: the watched file \<open>/X/f\<close> is renamed to \<open>/X/h\<close>, and \<open>/X/h\<close> is
  gone again when the event is translated. The event involves the target, its new path
  lies inside the watched directory and differs from the target; but \<open>fs.statSync\<close>
  throws in \<open>moveToPath\<close>, so the subscription is not moved and no callback is called.
\<close>

theorem rename_to_vanished_path_throws:
  "oldPath \<lparr>action = ChildRename, path = ''/X/h'', oldPath = ''/X/f''\<rparr>
     = originalNormalizedPath demo_file_watcher
   \<and> isWatchedPath demo_host demo_file_watcher ''/X/h''
   \<and> ''/X/h'' \<noteq> originalNormalizedPath demo_file_watcher
   \<and> onNativeEvent demo_host demo_file_watcher
        \<lparr>action = ChildRename, path = ''/X/h'', oldPath = ''/X/f''\<rparr>
     = Inl (StatError ''/X/h'')"
  by (simp add: demo_simps)

text \<open>
  C4, amended: for every \<open>child-rename\<close> raw event that involves the subscription's
  target, whose new path lies inside the watched directory and differs from the target,
  and whose new path can be examined when the event is translated (\<open>fs.statSync\<close>
  succeeds on it): the subscription moves to the new path (the target becomes the new
  path; the normalized path becomes its parent directory when the new path is a file,
  and the new path itself when it is a directory), and the callback for which the event
  is translated is called once with the new path, with the action \<open>rename\<close> when the old
  path lies inside the watched directory too and \<open>create\<close> when it does not. Afterwards
  changes still call the callback with \<open>change\<close>: when the new path is a file (that
  lies inside its parent directory), \<open>child-change\<close> and \<open>change\<close> events on the new
  path do; when it is a directory, \<open>child-create\<close>, \<open>child-delete\<close> and \<open>child-change\<close>
  events on the paths inside it do.
\<close>

theorem rename_followed_when_new_path_can_be_examined:
  assumes "action event = ChildRename"
      and "originalNormalizedPath w = path event \<or> originalNormalizedPath w = oldPath event"
      and "isWatchedPath h w (path event)"
      and "originalNormalizedPath w \<noteq> path event"
      and "fs_statIsDirectory h (path event) = Some d"
  shows "(let moved = w\<lparr> isWatchingParent := \<not> d,
                         originalNormalizedPath := path event,
                         normalizedPath := (if d then path event
                                            else path_dirname h (path event)) \<rparr>
          in onNativeEvent h w event =
               Inr (moved, Some (if isWatchedPath h w (oldPath event) then Rename else Create,
                                 Some (path event)))
           \<and> (\<not> d \<and> startsWith (path event) (sep h (path_dirname h (path event))) \<longrightarrow>
                (\<forall>a \<in> {ChildChange, Change}. \<forall>old.
                   onNativeEvent h moved \<lparr>action = a, path = path event, oldPath = old\<rparr>
                     = Inr (moved, Some (Change, Some ''''))))
           \<and> (d \<longrightarrow>
                (\<forall>a \<in> {ChildCreate, ChildDelete, ChildChange}. \<forall>p old.
                   startsWith p (sep h (path event)) \<and> p \<noteq> path event \<longrightarrow>
                   onNativeEvent h moved \<lparr>action = a, path = p, oldPath = old\<rparr>
                     = Inr (moved, Some (Change, Some '''')))))"
  using assms
  by (auto simp: onNativeEvent_def switchAction_def Let_def moveToPath_def isDirectory_def
                 isWatchedPath_def)

theorem rename_followed_when_new_path_can_be_examined_witness:
  "onNativeEvent demo_host demo_file_watcher
      \<lparr>action = ChildRename, path = ''/X/g'', oldPath = ''/X/f''\<rparr>
     = Inr (demo_file_watcher\<lparr>originalNormalizedPath := ''/X/g''\<rparr>, Some (Rename, Some ''/X/g''))
   \<and> onNativeEvent demo_host (demo_file_watcher\<lparr>originalNormalizedPath := ''/X/g''\<rparr>)
      \<lparr>action = ChildChange, path = ''/X/g'', oldPath = ''''\<rparr>
     = Inr (demo_file_watcher\<lparr>originalNormalizedPath := ''/X/g''\<rparr>, Some (Change, Some ''''))
   \<and> onNativeEvent demo_host demo_file_watcher
      \<lparr>action = ChildRename, path = ''/X/d'', oldPath = ''/X/f''\<rparr>
     = Inr (\<lparr>watchedPath = ''/X/f'', normalizedPath = ''/X/d'', originalNormalizedPath = ''/X/d'',
             isWatchingParent = False, active = True\<rparr>,
            Some (Rename, Some ''/X/d''))
   \<and> onNativeEvent demo_host
      \<lparr>watchedPath = ''/X/f'', normalizedPath = ''/X/d'', originalNormalizedPath = ''/X/d'',
        isWatchingParent = False, active = True\<rparr>
      \<lparr>action = ChildCreate, path = ''/X/d/x'', oldPath = ''''\<rparr>
     = Inr (\<lparr>watchedPath = ''/X/f'', normalizedPath = ''/X/d'', originalNormalizedPath = ''/X/d'',
             isWatchingParent = False, active = True\<rparr>,
            Some (Change, Some ''''))"
proof -
  let ?file = "\<lparr>action = ChildRename, path = ''/X/g'', oldPath = ''/X/f''\<rparr>"
  let ?dir = "\<lparr>action = ChildRename, path = ''/X/d'', oldPath = ''/X/f''\<rparr>"
  have f1: "action ?file = ChildRename" by simp
  have f2: "originalNormalizedPath demo_file_watcher = path ?file
      \<or> originalNormalizedPath demo_file_watcher = oldPath ?file"
    by (simp add: demo_file_watcher_def)
  have f3: "isWatchedPath demo_host demo_file_watcher (path ?file)" by (simp add: demo_simps)
  have f4: "originalNormalizedPath demo_file_watcher \<noteq> path ?file"
    by (simp add: demo_file_watcher_def)
  have f5: "fs_statIsDirectory demo_host (path ?file) = Some False" by (simp add: demo_simps)
  have f6: "startsWith (path ?file) (sep demo_host (path_dirname demo_host (path ?file)))"
    by (simp add: demo_simps)
  have f7: "isWatchedPath demo_host demo_file_watcher (oldPath ?file)" by (simp add: demo_simps)
  have d1: "action ?dir = ChildRename" by simp
  have d2: "originalNormalizedPath demo_file_watcher = path ?dir
      \<or> originalNormalizedPath demo_file_watcher = oldPath ?dir"
    by (simp add: demo_file_watcher_def)
  have d3: "isWatchedPath demo_host demo_file_watcher (path ?dir)" by (simp add: demo_simps)
  have d4: "originalNormalizedPath demo_file_watcher \<noteq> path ?dir"
    by (simp add: demo_file_watcher_def)
  have d5: "fs_statIsDirectory demo_host (path ?dir) = Some True" by (simp add: demo_simps)
  have d6: "startsWith ''/X/d/x'' (sep demo_host (path ?dir)) \<and> ''/X/d/x'' \<noteq> path ?dir"
    by (simp add: demo_simps)
  have d7: "isWatchedPath demo_host demo_file_watcher (oldPath ?dir)" by (simp add: demo_simps)
  note at_file = rename_followed_when_new_path_can_be_examined [OF f1 f2 f3 f4 f5]
  note at_dir = rename_followed_when_new_path_can_be_examined [OF d1 d2 d3 d4 d5]
  from at_file f6 f7 have
    "onNativeEvent demo_host demo_file_watcher ?file
       = Inr (demo_file_watcher\<lparr>originalNormalizedPath := ''/X/g''\<rparr>, Some (Rename, Some ''/X/g''))"
    "onNativeEvent demo_host (demo_file_watcher\<lparr>originalNormalizedPath := ''/X/g''\<rparr>)
        \<lparr>action = ChildChange, path = ''/X/g'', oldPath = ''''\<rparr>
       = Inr (demo_file_watcher\<lparr>originalNormalizedPath := ''/X/g''\<rparr>, Some (Change, Some ''''))"
    by (simp_all add: Let_def demo_file_watcher_def demo_host_def posix_dirname_def)
  moreover from at_dir d6 d7 have
    "onNativeEvent demo_host demo_file_watcher ?dir
       = Inr (\<lparr>watchedPath = ''/X/f'', normalizedPath = ''/X/d'', originalNormalizedPath = ''/X/d'',
               isWatchingParent = False, active = True\<rparr>,
              Some (Rename, Some ''/X/d''))"
    "onNativeEvent demo_host
        \<lparr>watchedPath = ''/X/f'', normalizedPath = ''/X/d'', originalNormalizedPath = ''/X/d'',
          isWatchingParent = False, active = True\<rparr>
        \<lparr>action = ChildCreate, path = ''/X/d/x'', oldPath = ''''\<rparr>
       = Inr (\<lparr>watchedPath = ''/X/f'', normalizedPath = ''/X/d'', originalNormalizedPath = ''/X/d'',
               isWatchingParent = False, active = True\<rparr>,
              Some (Change, Some ''''))"
    by (simp_all add: Let_def demo_file_watcher_def)
  ultimately show ?thesis by simp
qed

text \<open>
  A further callback of the same subscription sees the event after the move, when the
  event's new path is the target already: for a rename within the watched directory it
  is called with \<open>rename\<close> and the empty string.
\<close>

lemma further_callback_after_move:
  "onNativeEvent demo_host (demo_file_watcher\<lparr>originalNormalizedPath := ''/X/g''\<rparr>)
      \<lparr>action = ChildRename, path = ''/X/g'', oldPath = ''/X/f''\<rparr>
     = Inr (demo_file_watcher\<lparr>originalNormalizedPath := ''/X/g''\<rparr>, Some (Rename, Some ''''))"
  by (simp add: demo_simps)

text \<open>
  C7: a \<open>create\<close> or \<open>child-create\<close> raw event whose path is the subscription's exact
  target is dropped: the subscription is unchanged and no callback is called. (The
  constructor has checked that the target exists, so every subscription was created on
  an existing path.)
\<close>

theorem create_on_target_dropped:
  assumes "action event = Create \<or> action event = ChildCreate"
      and "path event = originalNormalizedPath w"
  shows "onNativeEvent h w event = Inr (w, None)"
  using assms by (auto simp: onNativeEvent_def switchAction_def Let_def)

theorem create_on_target_dropped_witness:
  "onNativeEvent demo_host demo_file_watcher
      \<lparr>action = ChildCreate, path = ''/X/f'', oldPath = ''''\<rparr> = Inr (demo_file_watcher, None)"
proof -
  let ?ev = "\<lparr>action = ChildCreate, path = ''/X/f'', oldPath = ''''\<rparr>"
  have a1: "action ?ev = Create \<or> action ?ev = ChildCreate" by simp
  have a2: "path ?ev = originalNormalizedPath demo_file_watcher"
    by (simp add: demo_file_watcher_def)
  from create_on_target_dropped [OF a1 a2] show ?thesis .
qed

section \<open>The entry point: theorems\<close>

text \<open>
  C3: when the path to watch, resolved as \<open>watch\<close> resolves it, does not exist,
  \<open>watch\<close> throws the error \<open>Unable to watch path\<close> with the code \<open>ENOENT\<close>; the
  registry is not asked for anything, so its state is unchanged and no subscription
  exists afterwards.
\<close>

theorem watch_missing_path_throws:
  assumes "\<not> fs_existsSync h (path_resolve h pathToWatch)"
  shows "watch h onDidChange m pathToWatch =
           (Inl (WatcherError ''Unable to watch path'' ''ENOENT''), m\<lparr>initialized := True\<rparr>)"
  using assms by (simp add: watch_def new_PathWatcher_def)

theorem watch_missing_path_throws_witness:
  "watch demo_host
      (PathWatcher_onDidChange demo_host (getDefaultRegistryOptionsForPlatform Linux)
         demo_binding_watch)
      \<lparr>initialized = False, registry = registry0\<rparr> ''/X/nope'' =
     (Inl (WatcherError ''Unable to watch path'' ''ENOENT''),
      \<lparr>initialized = True, registry = registry0\<rparr>)"
proof -
  have a: "\<not> fs_existsSync demo_host (path_resolve demo_host ''/X/nope'')"
    by (simp add: demo_simps)
  from watch_missing_path_throws [OF a,
      of "PathWatcher_onDidChange demo_host (getDefaultRegistryOptionsForPlatform Linux)
            demo_binding_watch"
         "\<lparr>initialized = False, registry = registry0\<rparr>"]
  show ?thesis by simp
qed

text \<open>
  \<open>watch\<close> applies \<open>path.resolve\<close> to its argument before anything else: the existence
  check, the canonicalization and the directory test all see the resolved path, and no
  test of absoluteness exists. Whenever the resolved path exists and can be examined,
  the subscription is built on it and handed to \<open>onDidChange\<close>.
\<close>

lemma watch_builds_subscription_on_resolved_path:
  assumes "fs_existsSync h (path_resolve h pathToWatch)"
      and "fs_statIsDirectory h (getRealFilePath h (path_resolve h pathToWatch)) = Some d"
  shows "watch h onDidChange m pathToWatch =
           (let real = getRealFilePath h (path_resolve h pathToWatch);
                watcher = \<lparr> watchedPath = path_resolve h pathToWatch,
                            normalizedPath = (if d then real else path_dirname h real),
                            originalNormalizedPath = real,
                            isWatchingParent = (\<not> d),
                            active = True \<rparr>
            in (fst (onDidChange watcher (registry m)),
                \<lparr>initialized = True, registry = snd (onDidChange watcher (registry m))\<rparr>))"
  using assms
  by (cases m) (auto simp: watch_def new_PathWatcher_def isDirectory_def Let_def split: prod.splits)



section \<open>The registry tree: theorems\<close>

lemma tree_Xa_built:
  "attach counting_createNative DEFAULT_OPTIONS demo_host (RegistryNode None []) ''/X/a'' \<lparr>created = 0, effects = []\<rparr>
     = Inr (tree_Xa, \<lparr>created = 1, effects = [CreateNative 0 ''/X/a'', AttachToNative 0 ''/X/a'']\<rparr>)"
  by (simp add: registry_simps tree_Xa_def)

lemma tree_X_ab_built:
  "attach counting_createNative DEFAULT_OPTIONS demo_host
      (RegistryNode None [(''X'', RegistryWatcherNode 0 [''X''] [''a''])]) ''/X/b''
      \<lparr>created = 1, effects = []\<rparr>
     = Inr (tree_X_ab, \<lparr>created = 1, effects = [AttachToNative 0 ''/X'']\<rparr>)"
  by (simp add: registry_simps tree_X_ab_def)

text \<open>
  With the default cap of 3 the registry merges the siblings \<open>/X/a\<close> and \<open>/X/b\<close> under
  a new native watcher at \<open>/X\<close>, hands the listeners of the old one over and stops it.
\<close>

lemma siblings_merged_under_cap:
  "attach counting_createNative DEFAULT_OPTIONS demo_host tree_Xa ''/X/b'' \<lparr>created = 1, effects = []\<rparr>
     = Inr (RegistryNode None [(''X'', RegistryWatcherNode 1 [''X''] [''a'', ''b''])],
            \<lparr>created = 2,
              effects = [CreateNative 1 ''/X'', AttachToNative 1 ''/X'',
                         ReattachListenersTo 0 1 ''/X'', Dispose 0, Stop 0]\<rparr>)"
  by (simp add: registry_simps tree_Xa_def)

text \<open>
  C5, the code at the failing input: with \<open>mergeWatchersWithCommonAncestors\<close> enabled
  and \<open>maxCommonAncestorLevel = 0\<close>, a subscription at \<open>/X/b\<close> next to the watcher
  node at \<open>/X/a\<close> gets a standalone native watcher at \<open>/X/b\<close>: the distance 1 exceeds
  0, so the cap is enforced, not disabled, and nothing is merged.
\<close>

theorem zero_cap_is_enforced:
  "attach counting_createNative (DEFAULT_OPTIONS\<lparr>maxCommonAncestorLevel := 0\<rparr>) demo_host tree_Xa ''/X/b''
      \<lparr>created = 1, effects = []\<rparr>
     = Inr (RegistryNode None
              [(''X'', RegistryNode (Some ''X'')
                 [(''a'', RegistryWatcherNode 0 [''X'', ''a''] []),
                  (''b'', RegistryWatcherNode 1 [''X'', ''b''] [])])],
            \<lparr>created = 2, effects = [CreateNative 1 ''/X/b'', AttachToNative 1 ''/X/b'']\<rparr>)"
  by (simp add: registry_simps tree_Xa_def)

text \<open>
  C6, the code at the failing input: with \<open>relocateAncestorWatchers\<close> disabled, the
  detach of \<open>/X/a\<close> from the watcher node at \<open>/X\<close> that serves \<open>a\<close> and \<open>b\<close> still
  narrows: the watcher node is replaced by a subtree with a new native watcher at
  \<open>/X/b\<close>, to which the listeners of the old one are handed.
\<close>

theorem narrowing_ignores_relocate_option:
  "detach counting_createNative (DEFAULT_OPTIONS\<lparr>relocateAncestorWatchers := False\<rparr>) demo_host tree_X_ab ''/X/a''
      \<lparr>created = 1, effects = []\<rparr>
     = Inr (RegistryNode None
              [(''X'', RegistryNode None [(''b'', RegistryWatcherNode 1 [''X'', ''b''] [])])],
            \<lparr>created = 2,
              effects = [CreateNative 1 ''/X/b'', ReattachListenersTo 0 1 ''/X/b'']\<rparr>)"
  by (simp add: registry_simps tree_X_ab_def)

section \<open>The macOS backend: theorems\<close>

text \<open>
  A pair of rename events at the head of a batch, within one directory: one \<open>Moved\<close>
  from the path that no longer exists to the one that does.
\<close>

lemma rename_pair_in_one_directory:
  "delivered (handleActions (demo_mac [''/w/a/new''])
      [demo_event ''/w/a/old'' 0x800 7, demo_event ''/w/a/new'' 0x800 7] demo_fsw)
     = [\<lparr>fa_watchid = 1, fa_dir = ''/w/a/'', fa_filename = ''new'',
          fa_action = Actions_Moved, fa_oldFilename = ''old''\<rparr>]"
  by (simp add: fsevents_simps)

text \<open>
  The same pair after two other events: the next event is read with the index of the
  match, \<open>events[1]\<close>, so the two rename events are not recognised as a pair and are
  reported as a deletion and a creation.
\<close>

lemma rename_pair_later_in_batch:
  "delivered (handleActions (demo_mac [''/w/a/new'', ''/w/a/x'', ''/w/a/y''])
      [demo_event ''/w/a/x'' 0x100 1, demo_event ''/w/a/y'' 0x1000 2,
       demo_event ''/w/a/old'' 0x800 7, demo_event ''/w/a/new'' 0x800 7] demo_fsw)
     = [\<lparr>fa_watchid = 1, fa_dir = ''/w/a/'', fa_filename = ''x'',
          fa_action = Actions_Add, fa_oldFilename = []\<rparr>,
        \<lparr>fa_watchid = 1, fa_dir = ''/w/a/'', fa_filename = ''y'',
          fa_action = Actions_Modified, fa_oldFilename = []\<rparr>,
        \<lparr>fa_watchid = 1, fa_dir = ''/w/a/'', fa_filename = ''old'',
          fa_action = Actions_Delete, fa_oldFilename = []\<rparr>,
        \<lparr>fa_watchid = 1, fa_dir = ''/w/a/'', fa_filename = ''new'',
          fa_action = Actions_Add, fa_oldFilename = []\<rparr>]"
  by (simp add: fsevents_simps)

text \<open>
  C9, the code at the failing input: the file \<open>/w/a/f\<close> is moved to \<open>/w/b/f\<close> and the
  second event of the pair also carries \<open>ItemModified\<close>. The backend reports the
  deletion of \<open>/w/a/f\<close>, the creation of \<open>/w/b/f\<close> and then a modification of the old
  path \<open>/w/a/f\<close>, not of the new path.
\<close>

theorem rename_across_directories_modifies_old_path:
  "delivered (handleActions (demo_mac [''/w/b/f''])
      [demo_event ''/w/a/f'' 0x800 7, demo_event ''/w/b/f'' 0x1800 7] demo_fsw)
     = [\<lparr>fa_watchid = 1, fa_dir = ''/w/a/'', fa_filename = ''f'',
          fa_action = Actions_Delete, fa_oldFilename = []\<rparr>,
        \<lparr>fa_watchid = 1, fa_dir = ''/w/b/'', fa_filename = ''f'',
          fa_action = Actions_Add, fa_oldFilename = []\<rparr>,
        \<lparr>fa_watchid = 1, fa_dir = ''/w/a/'', fa_filename = ''f'',
          fa_action = Actions_Modified, fa_oldFilename = []\<rparr>]"
  by (simp add: fsevents_simps)

section \<open>The native watcher wrapper: theorems\<close>





























end
